theory Spec2Isabelle
  imports Complex_Main "HOL-Library.Sublist"
begin

section \<open>JavaScript values\<close>

text \<open>
  Request and response bodies are JSON. A parsed JSON value is one of the six JSON kinds;
  an object is a map from property names to values. \<open>JNull\<close> also stands for
  JavaScript's \<open>undefined\<close>: the handlers below only test such values for truthiness,
  where \<open>null\<close> and \<open>undefined\<close> agree. Numbers are integers (no handler computes
  with a JSON number).
\<close>

datatype json =
    JNull
  | JBool bool
  | JNum int
  | JStr string
  | JArr "json list"
  | JObj "string \<Rightarrow> json option"

type_synonym object = "string \<Rightarrow> json option"

text \<open>JavaScript truthiness (\<open>!x\<close>, \<open>x || y\<close>, \<open>if (x)\<close>).\<close>

fun truthy :: "json \<Rightarrow> bool" where
  "truthy JNull = False"
| "truthy (JBool b) = b"
| "truthy (JNum n) = (n \<noteq> 0)"
| "truthy (JStr s) = (s \<noteq> [])"
| "truthy (JArr xs) = True"
| "truthy (JObj m) = True"

text \<open>Truthiness of an optional string field: absent (\<open>undefined\<close>) and \<open>""\<close> are falsy.\<close>

fun truthy_str :: "string option \<Rightarrow> bool" where
  "truthy_str None = False"
| "truthy_str (Some s) = (s \<noteq> [])"

text \<open>
  Object spread \<open>{...a, ...b}\<close>: the properties of \<open>a\<close>, then those of \<open>b\<close>, a property
  of \<open>b\<close> replacing one of \<open>a\<close> with the same name. Spreading \<open>undefined\<close> adds nothing.
\<close>

definition spread :: "object option \<Rightarrow> object \<Rightarrow> object" where
  "spread a b = (case a of None \<Rightarrow> Map.empty | Some m \<Rightarrow> m) ++ b"

text \<open>
  A JavaScript number as \<open>parseInt\<close> produces it: \<open>NaN\<close> or an integer. (Beyond
  \<open>2^53\<close> JavaScript rounds to a double; such a value is far beyond any array length and
  \<open>slice\<close> treats it as it treats the exact integer.)
\<close>

datatype number = NaN | Num int

fun negate :: "number \<Rightarrow> number" where
  "negate NaN = NaN"
| "negate (Num i) = Num (- i)"

text \<open>
  \<open>parseInt(s)\<close> with no radix: skip leading white space, read an optional sign, strip a
  \<open>0x\<close>/\<open>0X\<close> prefix (radix 16, otherwise radix 10), read the longest run of digits of
  the radix; no digit gives \<open>NaN\<close>. Characters are ASCII.
\<close>

definition is_white :: "char \<Rightarrow> bool" where
  "is_white c = (c \<in> set [CHR '' '', CHR 0x09, CHR 0x0A, CHR 0x0B, CHR 0x0C, CHR 0x0D])"

definition digit_of :: "char \<Rightarrow> nat option" where
  "digit_of c =
     (let n = of_char c :: nat in
      if 48 \<le> n \<and> n \<le> 57 then Some (n - 48)
      else if 97 \<le> n \<and> n \<le> 102 then Some (n - 87)
      else if 65 \<le> n \<and> n \<le> 70 then Some (n - 55)
      else None)"

definition is_digit :: "nat \<Rightarrow> char \<Rightarrow> bool" where
  "is_digit radix c = (case digit_of c of None \<Rightarrow> False | Some d \<Rightarrow> d < radix)"

definition digits_value :: "nat \<Rightarrow> string \<Rightarrow> nat" where
  "digits_value radix z = foldl (\<lambda>acc c. acc * radix + (case digit_of c of None \<Rightarrow> 0 | Some d \<Rightarrow> d)) 0 z"

definition parseInt :: "string \<Rightarrow> number" where
  "parseInt s =
     (let s1 = dropWhile is_white s;
          neg = (take 1 s1 = ''-'');
          s2 = (if take 1 s1 = ''-'' \<or> take 1 s1 = ''+'' then drop 1 s1 else s1);
          hex = (take 2 s2 = ''0x'' \<or> take 2 s2 = ''0X'');
          radix = (if hex then 16 else 10);
          s3 = (if hex then drop 2 s2 else s2);
          z = takeWhile (is_digit radix) s3
      in if z = [] then NaN
         else Num ((if neg then - 1 else 1) * int (digits_value radix z)))"

text \<open>
  \<open>Array.prototype.slice(start)\<close> with one argument: \<open>NaN\<close> counts as 0; a negative
  start counts from the end, clamped at 0; a start beyond the length gives the empty array.
\<close>

definition slice :: "'a list \<Rightarrow> number \<Rightarrow> 'a list" where
  "slice xs start =
     (let len = int (length xs);
          rel = (case start of NaN \<Rightarrow> 0 | Num i \<Rightarrow> i);
          k = (if rel < 0 then max (len + rel) 0 else min rel len)
      in drop (nat k) xs)"

text \<open>What a call of an external service gives back: a value, or a thrown error.\<close>

datatype js_error = JsError (error_message: "string option") (as_string: string)

datatype 'a outcome = Threw js_error | Returned 'a

section \<open>The conversation store (durable object \<open>ConversationMemory\<close>)\<close>

datatype role = User | Assistant | System

text \<open>
  The role a caller of \<open>/message\<close> may give. The handler reads the body as
  \<open>{ role: "user" | "assistant"; content: string }\<close>, and the one caller, the chat route,
  sends these two roles.
\<close>

datatype sender = FromUser | FromAssistant

fun role_of :: "sender \<Rightarrow> role" where
  "role_of FromUser = User"
| "role_of FromAssistant = Assistant"

record Message =
  role :: role
  content :: string
  timestamp :: int

record Metadata =
  userId :: string
  sessionId :: string
  createdAt :: int
  lastActivityAt :: int
  jobContext :: "object option"

record ConversationState =
  messages :: "Message list"
  metadata :: Metadata

text \<open>
  The object's storage maps keys to stored values; the class uses the one key
  \<open>"conversation"\<close>. \<open>Date.now()\<close> reads a clock: the \<open>n\<close>-th reading of a run is
  \<open>clk n\<close>, and the world counts the readings taken so far.
\<close>

type_synonym storage = "string \<Rightarrow> ConversationState option"

type_synonym clock = "nat \<Rightarrow> int"

record world =
  store :: storage
  tick :: nat

datatype body =
    InitOk ConversationState
  | MessageOk Message
  | History (history_messages: "Message list") (history_metadata: "Metadata option")
  | ContextOk (merged_context: object)
  | ClearOk
  | ErrorBody string
  | PlainText string

record response =
  status :: nat
  body :: body

definition seed_content :: string where
  "seed_content = ''You are a helpful AI job application assistant. Help users with resume tailoring, cover letter writing, interview preparation, and job search advice.''"

definition handleInit :: "clock \<Rightarrow> string \<Rightarrow> string \<Rightarrow> world \<Rightarrow> response \<times> world" where
  "handleInit clk uid sid w =
     (case store w ''conversation'' of
        None \<Rightarrow>
          (let initialState =
                 \<lparr>messages = [\<lparr>role = System, content = seed_content, timestamp = clk (tick w)\<rparr>],
                  metadata = \<lparr>userId = uid, sessionId = sid,
                              createdAt = clk (tick w + 1),
                              lastActivityAt = clk (tick w + 2),
                              jobContext = None\<rparr>\<rparr>
           in (\<lparr>status = 200, body = InitOk initialState\<rparr>,
               \<lparr>store = (store w)(''conversation'' \<mapsto> initialState), tick = tick w + 3\<rparr>))
      | Some existingState \<Rightarrow> (\<lparr>status = 200, body = InitOk existingState\<rparr>, w))"

definition handleAddMessage :: "clock \<Rightarrow> sender \<Rightarrow> string \<Rightarrow> world \<Rightarrow> response \<times> world" where
  "handleAddMessage clk r c w =
     (case store w ''conversation'' of
        None \<Rightarrow> (\<lparr>status = 400, body = ErrorBody ''Conversation not initialized''\<rparr>, w)
      | Some conversation \<Rightarrow>
          (let newMessage = \<lparr>role = role_of r, content = c, timestamp = clk (tick w)\<rparr>;
               conversation' =
                 conversation\<lparr>messages := messages conversation @ [newMessage],
                              metadata := (metadata conversation)\<lparr>lastActivityAt := clk (tick w + 1)\<rparr>\<rparr>
           in (\<lparr>status = 200, body = MessageOk newMessage\<rparr>,
               \<lparr>store = (store w)(''conversation'' \<mapsto> conversation'), tick = tick w + 2\<rparr>)))"

definition handleGetHistory :: "string option \<Rightarrow> world \<Rightarrow> response \<times> world" where
  "handleGetHistory limit_param w =
     (let limit = parseInt (case limit_param of None \<Rightarrow> ''50''
                            | Some s \<Rightarrow> if s = [] then ''50'' else s)
      in case store w ''conversation'' of
           None \<Rightarrow> (\<lparr>status = 200, body = History [] None\<rparr>, w)
         | Some conversation \<Rightarrow>
             (\<lparr>status = 200,
               body = History (slice (messages conversation) (negate limit))
                              (Some (metadata conversation))\<rparr>, w))"

definition handleUpdateContext :: "object \<Rightarrow> world \<Rightarrow> response \<times> world" where
  "handleUpdateContext ctx w =
     (case store w ''conversation'' of
        None \<Rightarrow> (\<lparr>status = 400, body = ErrorBody ''Conversation not initialized''\<rparr>, w)
      | Some conversation \<Rightarrow>
          (let merged = spread (jobContext (metadata conversation)) ctx;
               conversation' =
                 conversation\<lparr>metadata := (metadata conversation)\<lparr>jobContext := Some merged\<rparr>\<rparr>
           in (\<lparr>status = 200, body = ContextOk merged\<rparr>,
               w\<lparr>store := (store w)(''conversation'' \<mapsto> conversation')\<rparr>)))"

definition handleClear :: "world \<Rightarrow> response \<times> world" where
  "handleClear w = (\<lparr>status = 200, body = ClearOk\<rparr>, w\<lparr>store := Map.empty\<rparr>)"

text \<open>
  The requests \<open>fetch\<close> tells apart by path, each with what its handler reads: the fields
  of the body, or the value of the query parameter \<open>limit\<close> (\<open>None\<close> when the URL has
  none). The handlers are total on these; a fault of the storage (which \<open>fetch\<close> would
  turn into a 500) is not part of the model.
\<close>

datatype request =
    ReqInit string string
  | ReqMessage sender string
  | ReqHistory "string option"
  | ReqContext object
  | ReqClear
  | ReqOther

fun fetch :: "clock \<Rightarrow> request \<Rightarrow> world \<Rightarrow> response \<times> world" where
  "fetch clk (ReqInit uid sid) w = handleInit clk uid sid w"
| "fetch clk (ReqMessage r c) w = handleAddMessage clk r c w"
| "fetch clk (ReqHistory l) w = handleGetHistory l w"
| "fetch clk (ReqContext ctx) w = handleUpdateContext ctx w"
| "fetch clk ReqClear w = handleClear w"
| "fetch clk ReqOther w = (\<lparr>status = 404, body = PlainText ''Not Found''\<rparr>, w)"

text \<open>A session's history: the requests its object has served, in order, from empty storage.\<close>

definition serve :: "clock \<Rightarrow> request list \<Rightarrow> world \<Rightarrow> world" where
  "serve clk reqs w = fold (\<lambda>r v. snd (fetch clk r v)) reqs w"

definition fresh :: world where
  "fresh = \<lparr>store = Map.empty, tick = 0\<rparr>"

section \<open>The worker: HTTP handlers\<close>

text \<open>
  The binding \<open>CONVERSATIONS\<close> gives each session name its own object, with its own
  storage. A handler reaches the object through a stub; the clock is shared.
\<close>

record env =
  conversations :: "string \<Rightarrow> storage"
  ticks :: nat

definition stub_fetch :: "clock \<Rightarrow> string \<Rightarrow> request \<Rightarrow> env \<Rightarrow> response \<times> env" where
  "stub_fetch clk sid req e =
     (let (resp, w') = fetch clk req \<lparr>store = conversations e sid, tick = ticks e\<rparr>
      in (resp, \<lparr>conversations = (conversations e)(sid := store w'), ticks = tick w'\<rparr>))"

text \<open>
  The inference binding \<open>AI.run(model, options)\<close>. The service is outside the program: it
  is a parameter, a function of the request and of the state of the outside (type \<open>'x\<close>),
  giving a string, or an object with optional \<open>response\<close> and \<open>text\<close> properties, or
  throwing.
\<close>

record ai_request =
  model :: string
  ai_messages :: "(role \<times> string) list"
  max_tokens :: nat
  temperature :: "real option"

datatype ai_response =
    AiString string
  | AiObject (response_field: "string option") (text_field: "string option")

type_synonym 'x ai = "ai_request \<Rightarrow> 'x \<Rightarrow> ai_response outcome \<times> 'x"

definition llama :: string where
  "llama = ''@cf/meta/llama-3.3-70b-instruct-fp8-fast''"

datatype http_body =
    ChatOk string string int
  | HttpError string
  | HttpErrorMessage string string
  | FromObject (object_body: body)
  | WorkflowStarted string string string
  | WorkflowStatus string json json

record http_response =
  http_status :: nat
  http_body :: http_body

text \<open>
  \<open>ChatRequest\<close>: the fields \<open>message\<close>, \<open>sessionId\<close> and \<open>userId\<close>, strings, each of
  which a request may leave out.
\<close>

record ChatRequest =
  chat_message :: "string option"
  chat_sessionId :: "string option"
  chat_userId :: "string option"

text \<open>
  \<open>POST /api/chat\<close>. The history is read with the query \<open>limit=10\<close>; the messages it
  returns, reduced to role and content, are what the model is given.
\<close>

definition assistant_text :: "ai_response \<Rightarrow> string" where
  "assistant_text r =
     (case r of
        AiString s \<Rightarrow> s
      | AiObject resp txt \<Rightarrow>
          if truthy_str resp then the resp
          else if truthy_str txt then the txt
          else ''[object Object]'')"

definition post_chat ::
  "clock \<Rightarrow> 'x ai \<Rightarrow> ChatRequest \<Rightarrow> env \<Rightarrow> 'x \<Rightarrow> http_response \<times> env \<times> 'x" where
  "post_chat clk ai req e x =
     (if \<not> truthy_str (chat_message req) \<or> \<not> truthy_str (chat_sessionId req)
         \<or> \<not> truthy_str (chat_userId req)
      then (\<lparr>http_status = 400, http_body = HttpError ''Missing required fields''\<rparr>, e, x)
      else
        let msg = the (chat_message req);
            sid = the (chat_sessionId req);
            uid = the (chat_userId req);
            e1 = snd (stub_fetch clk sid (ReqInit uid sid) e);
            e2 = snd (stub_fetch clk sid (ReqMessage FromUser msg) e1);
            (historyResponse, e3) = stub_fetch clk sid (ReqHistory (Some ''10'')) e2;
            msgs = history_messages (body historyResponse)
        in case ai \<lparr>model = llama,
                    ai_messages = map (\<lambda>m. (role m, content m)) msgs,
                    max_tokens = 2048,
                    temperature = Some (7 / 10)\<rparr> x of
             (Threw err, x') \<Rightarrow>
               (\<lparr>http_status = 500, http_body = HttpError ''Failed to process chat message''\<rparr>,
                e3, x')
           | (Returned aiResponse, x') \<Rightarrow>
               (let assistantMessage = assistant_text aiResponse;
                    e4 = snd (stub_fetch clk sid (ReqMessage FromAssistant assistantMessage) e3)
                in (\<lparr>http_status = 200,
                     http_body = ChatOk assistantMessage sid (clk (ticks e4))\<rparr>,
                    e4\<lparr>ticks := ticks e4 + 1\<rparr>, x')))"

text \<open>
  \<open>POST /api/context/:sessionId\<close>. The parsed request body (a JSON object), whole, is
  what the handler calls \<open>jobContext\<close> and sends to the object as \<open>{ jobContext }\<close>; the
  object's answer is returned as JSON with the default status 200.
\<close>

definition post_context :: "clock \<Rightarrow> string \<Rightarrow> object \<Rightarrow> env \<Rightarrow> http_response \<times> env" where
  "post_context clk sid request_body e =
     (let (resp, e') = stub_fetch clk sid (ReqContext request_body) e
      in (\<lparr>http_status = 200, http_body = FromObject (body resp)\<rparr>, e'))"

text \<open>
  \<open>WorkflowRequest\<close> (and \<open>JobApplicationParams\<close>, the same fields, which the workflow
  receives as its payload): five string fields, each of which a request may leave out.
  The field \<open>userId\<close> is \<open>applicant\<close> here.
\<close>

record JobApplicationParams =
  jobDescription :: "string option"
  resumeText :: "string option"
  jobTitle :: "string option"
  company :: "string option"
  applicant :: "string option"

text \<open>
  \<open>POST /api/workflow\<close>. \<open>JOB_WORKFLOW.create\<close> is the orchestrator's: a parameter, a
  function of the parameters of the run and of the orchestrator's state (type \<open>'o\<close>),
  giving the identifier of the new instance or throwing.
\<close>

type_synonym 'o creator = "JobApplicationParams \<Rightarrow> 'o \<Rightarrow> string outcome \<times> 'o"

definition post_workflow ::
  "'o creator \<Rightarrow> JobApplicationParams \<Rightarrow> 'o \<Rightarrow> http_response \<times> 'o" where
  "post_workflow create workflowData orch =
     (if \<not> truthy_str (jobDescription workflowData) \<or> \<not> truthy_str (resumeText workflowData)
         \<or> \<not> truthy_str (jobTitle workflowData)
      then (\<lparr>http_status = 400, http_body = HttpError ''Missing required workflow fields''\<rparr>, orch)
      else case create workflowData orch of
             (Threw err, orch') \<Rightarrow>
               (\<lparr>http_status = 500, http_body = HttpError ''Failed to start workflow''\<rparr>, orch')
           | (Returned instance_id, orch') \<Rightarrow>
               (\<lparr>http_status = 200,
                 http_body = WorkflowStarted instance_id ''Workflow started successfully''
                               ''running''\<rparr>, orch'))"

text \<open>
  \<open>GET /api/workflow/:workflowId\<close>. \<open>JOB_WORKFLOW.get\<close> gives an instance or throws; the
  instance's \<open>status()\<close> gives a status object (or nothing) or throws; its \<open>output()\<close>,
  which the handler tries last, gives a value or throws. A missing property of the status
  object is \<open>JNull\<close>.
\<close>

record status_info =
  si_status :: json
  si_output :: json
  si_result :: json

record workflow_instance =
  inst_status :: "status_info option outcome"
  inst_output :: "json outcome"

type_synonym workflows = "string \<Rightarrow> workflow_instance outcome"

definition js_includes :: "string \<Rightarrow> string \<Rightarrow> bool" where
  "js_includes s needle = sublist needle s"

definition status_failure :: "string \<Rightarrow> js_error \<Rightarrow> http_response" where
  "status_failure workflowId err =
     (if (case error_message err of None \<Rightarrow> False | Some m \<Rightarrow> js_includes m ''not_found'')
      then \<lparr>http_status = 200, http_body = WorkflowStatus workflowId (JStr ''not_found'') JNull\<rparr>
      else \<lparr>http_status = 500,
            http_body = HttpErrorMessage ''Failed to get workflow status''
              (if truthy_str (error_message err) then the (error_message err)
               else as_string err)\<rparr>)"

definition get_workflow :: "workflows \<Rightarrow> string \<Rightarrow> http_response" where
  "get_workflow flows workflowId =
     (case flows workflowId of
        Threw err \<Rightarrow> status_failure workflowId err
      | Returned inst \<Rightarrow>
          (case inst_status inst of
             Threw err \<Rightarrow> status_failure workflowId err
           | Returned statusInfo \<Rightarrow>
               (let finalStatus =
                      (case statusInfo of
                         None \<Rightarrow> JStr ''running''
                       | Some si \<Rightarrow> if truthy (si_status si) then si_status si
                                    else JStr ''running'');
                    (output, finalStatus') =
                      (case statusInfo of
                         None \<Rightarrow> (JNull, finalStatus)
                       | Some si \<Rightarrow>
                           if truthy (si_output si) then (si_output si, JStr ''complete'')
                           else if truthy (si_result si) then (si_result si, JStr ''complete'')
                           else if finalStatus = JStr ''complete'' \<or> finalStatus = JStr ''success''
                           then (case inst_output inst of
                                   Threw e \<Rightarrow> (JNull, finalStatus)
                                 | Returned instanceOutput \<Rightarrow>
                                     if truthy instanceOutput then (instanceOutput, finalStatus)
                                     else (JNull, finalStatus))
                           else (JNull, finalStatus))
                in \<lparr>http_status = 200,
                    http_body = WorkflowStatus workflowId finalStatus' output\<rparr>)))"

text \<open>
  The other copy of the worker in the repository answers the same route differently: it
  reads the properties \<open>status\<close> and \<open>output\<close> of the instance (\<open>status\<close> is a method and
  \<open>output\<close> is not a property, so neither reaches the JSON body) and turns every thrown
  error into a 500.
\<close>

definition get_workflow_variant :: "workflows \<Rightarrow> string \<Rightarrow> http_response" where
  "get_workflow_variant flows workflowId =
     (case flows workflowId of
        Threw err \<Rightarrow>
          \<lparr>http_status = 500, http_body = HttpError ''Failed to get workflow status''\<rparr>
      | Returned inst \<Rightarrow>
          \<lparr>http_status = 200, http_body = WorkflowStatus workflowId JNull JNull\<rparr>)"

text \<open>
  Modelled from the spec: the states a run can be reported in by the orchestrator, whose
  type declarations are not part of the repository (section 3: queued, running, complete,
  errored, terminated), and the statuses of the polling route, which adds \<open>not_found\<close>.
\<close>

definition run_states :: "json list" where
  "run_states = [JStr ''queued'', JStr ''running'', JStr ''complete'', JStr ''errored'',
                 JStr ''terminated'']"

definition poll_statuses :: "json list" where
  "poll_statuses = run_states @ [JStr ''not_found'']"

text \<open>
  Modelled from the spec: what the orchestrator does when polled. Either it knows the run
  and reports a status object whose \<open>status\<close> is one of the run states (or is missing), or
  it has no record of the run. The second it signals by throwing; the handler takes an
  error whose message contains \<open>not_found\<close> for that signal, and so does the model.
\<close>

definition reports_run_state :: "status_info option \<Rightarrow> bool" where
  "reports_run_state statusInfo =
     (case statusInfo of
        None \<Rightarrow> True
      | Some si \<Rightarrow> si_status si = JNull \<or> si_status si \<in> set run_states)"

definition no_record :: "js_error \<Rightarrow> bool" where
  "no_record err = (case error_message err of None \<Rightarrow> False | Some m \<Rightarrow> js_includes m ''not_found'')"

definition orchestrator_answers :: "workflows \<Rightarrow> string \<Rightarrow> bool" where
  "orchestrator_answers flows workflowId =
     (case flows workflowId of
        Threw err \<Rightarrow> no_record err
      | Returned inst \<Rightarrow>
          (case inst_status inst of
             Threw err \<Rightarrow> no_record err
           | Returned statusInfo \<Rightarrow> reports_run_state statusInfo))"

definition has_record :: "workflows \<Rightarrow> string \<Rightarrow> bool" where
  "has_record flows workflowId =
     (case flows workflowId of
        Threw err \<Rightarrow> False
      | Returned inst \<Rightarrow> (case inst_status inst of Threw err \<Rightarrow> False | Returned si \<Rightarrow> True))"

section \<open>The generation pipeline (\<open>JobApplicationWorkflow\<close>)\<close>

text \<open>
  A template literal turns an interpolated value into text; a property the payload lacks
  is \<open>undefined\<close> and reads \<open>undefined\<close>. A line break in a template is one line feed.
\<close>

definition render :: "string option \<Rightarrow> string" where
  "render v = (case v of None \<Rightarrow> ''undefined'' | Some s \<Rightarrow> s)"

definition nl :: string where
  "nl = [CHR 0x0A]"

definition analyze_prompt :: "string option \<Rightarrow> string option \<Rightarrow> string option \<Rightarrow> string" where
  "analyze_prompt jobTitle' company' jobDescription' =
     ''Analyze this job description for '' @ render jobTitle' @ '' at '' @ render company' @ '':'' @ nl
     @ nl
     @ render jobDescription' @ nl
     @ nl
     @ ''Provide key requirements, skills needed, and culture fit indicators.''"

definition tailor_prompt ::
  "string option \<Rightarrow> string option \<Rightarrow> string option \<Rightarrow> string option \<Rightarrow> string" where
  "tailor_prompt resumeText' analysis' jobTitle' company' =
     ''Given this resume:'' @ nl
     @ nl
     @ render resumeText' @ nl
     @ nl
     @ ''And this job analysis:'' @ nl
     @ render analysis' @ nl
     @ nl
     @ ''Create a tailored version of the resume that emphasizes relevant skills and experience for the ''
     @ render jobTitle' @ '' position at '' @ render company' @ ''. Maintain professional formatting.''"

definition cover_letter_prompt ::
  "string option \<Rightarrow> string option \<Rightarrow> string option \<Rightarrow> string option \<Rightarrow> string" where
  "cover_letter_prompt jobTitle' company' analysis' resumeText' =
     ''Write a compelling cover letter for the '' @ render jobTitle' @ '' position at '' @ render company'
     @ ''.'' @ nl
     @ nl
     @ ''Job Requirements:'' @ nl
     @ render analysis' @ nl
     @ nl
     @ ''Candidate Background:'' @ nl
     @ render resumeText' @ nl
     @ nl
     @ ''Create a professional, personalized cover letter that highlights relevant experience and expresses genuine interest in the role.''"

definition interview_prompt :: "string option \<Rightarrow> string option \<Rightarrow> string option \<Rightarrow> string" where
  "interview_prompt jobTitle' company' jobDescription' =
     ''Based on this job for '' @ render jobTitle' @ '' at '' @ render company' @ '':'' @ nl
     @ nl
     @ render jobDescription' @ nl
     @ nl
     @ ''Provide 5-7 targeted interview preparation tips, including likely questions and strong answer frameworks.''"

text \<open>
  The property \<open>response\<close> of the model's answer, as \<open>response.response\<close> reads it:
  \<open>undefined\<close> when the answer is a string or an object without it.
\<close>

definition response_property :: "ai_response \<Rightarrow> string option" where
  "response_property answer = (case answer of AiString s \<Rightarrow> None | AiObject resp txt \<Rightarrow> resp)"

text \<open>
  The body of every step: one call of the model with the prompt as the only message and
  the step's \<open>max_tokens\<close>; the step's value is the \<open>response\<close> property of the answer.
\<close>

definition generate :: "'x ai \<Rightarrow> string \<Rightarrow> nat \<Rightarrow> 'x \<Rightarrow> string option outcome \<times> 'x" where
  "generate ai prompt limit x =
     (case ai \<lparr>model = llama, ai_messages = [(User, prompt)], max_tokens = limit,
                temperature = None\<rparr> x of
        (Threw err, x') \<Rightarrow> (Threw err, x')
      | (Returned answer, x') \<Rightarrow> (Returned (response_property answer), x'))"

text \<open>
  Modelled from the spec: running the callback of a step. \<open>step.do(name, callback)\<close> is a
  method of the orchestrator's step object, which the repository does not contain. It
  runs the callback and gives its value. The spec (section 4.2) has no retry of a failed stage; the platform, when the
  call names no retry configuration (as all four calls here), runs a throwing callback
  again, a bounded number of times, before it gives the error. The bound is the parameter
  \<open>retries\<close>: 0 is the spec's reading, 5 the platform's default. Each run of the callback
  is a new call of the model.
\<close>

fun attempt :: "nat \<Rightarrow> ('x \<Rightarrow> 'a outcome \<times> 'x) \<Rightarrow> 'x \<Rightarrow> 'a outcome \<times> 'x" where
  "attempt 0 callback x = callback x"
| "attempt (Suc n) callback x =
     (case callback x of
        (Threw err, x') \<Rightarrow> attempt n callback x'
      | (Returned v, x') \<Rightarrow> (Returned v, x'))"

text \<open>
  Modelled from the spec: \<open>step.do(name, callback)\<close>, with the bound on retries as its
  first argument: the callback is run until it returns, at most \<open>retries\<close> times more
  than once.
\<close>

definition step_do ::
  "nat \<Rightarrow> string \<Rightarrow> ('x \<Rightarrow> 'a outcome \<times> 'x) \<Rightarrow> 'x \<Rightarrow> 'a outcome \<times> 'x" where
  "step_do retries name callback x = attempt retries callback x"

record JobApplicationResult =
  analysis :: "string option"
  tailoredResume :: "string option"
  coverLetter :: "string option"
  interviewTips :: "string option"

definition run ::
  "nat \<Rightarrow> 'x ai \<Rightarrow> JobApplicationParams \<Rightarrow> 'x \<Rightarrow> JobApplicationResult outcome \<times> 'x" where
  "run retries ai payload x =
     (case step_do retries ''analyze-job''
             (generate ai (analyze_prompt (jobTitle payload) (company payload)
                             (jobDescription payload)) 1024) x of
        (Threw err, x1) \<Rightarrow> (Threw err, x1)
      | (Returned analysis1, x1) \<Rightarrow>
     (case step_do retries ''tailor-resume''
             (generate ai (tailor_prompt (resumeText payload) analysis1 (jobTitle payload)
                             (company payload)) 2048) x1 of
        (Threw err, x2) \<Rightarrow> (Threw err, x2)
      | (Returned tailoredResume1, x2) \<Rightarrow>
     (case step_do retries ''generate-cover-letter''
             (generate ai (cover_letter_prompt (jobTitle payload) (company payload) analysis1
                             (resumeText payload)) 2048) x2 of
        (Threw err, x3) \<Rightarrow> (Threw err, x3)
      | (Returned coverLetter1, x3) \<Rightarrow>
     (case step_do retries ''interview-tips''
             (generate ai (interview_prompt (jobTitle payload) (company payload)
                             (jobDescription payload)) 1536) x3 of
        (Threw err, x4) \<Rightarrow> (Threw err, x4)
      | (Returned interviewTips1, x4) \<Rightarrow>
          (Returned \<lparr>analysis = analysis1, tailoredResume = tailoredResume1,
                     coverLetter = coverLetter1, interviewTips = interviewTips1\<rparr>, x4)))))"

section \<open>Notions the properties are stated with\<close>

text \<open>
  A model that keeps the requests it has served, in order, as its state, and answers each
  request from that history and the request by an arbitrary function.
\<close>

definition recording ::
  "(ai_request list \<Rightarrow> ai_request \<Rightarrow> ai_response outcome) \<Rightarrow> ai_request list ai" where
  "recording answer req served = (answer served req, served @ [req])"


text \<open>
  A stored conversation is seeded: its first message is the system message of
  \<open>initialize\<close>, and every later message has the role user or assistant.
\<close>

definition seeded :: "ConversationState \<Rightarrow> bool" where
  "seeded c =
     (case messages c of
        [] \<Rightarrow> False
      | m # ms \<Rightarrow> role m = System \<and> content m = seed_content \<and>
                  list_all (\<lambda>x. role x = User \<or> role x = Assistant) ms)"

definition store_inv :: "storage \<Rightarrow> bool" where
  "store_inv st = (case st ''conversation'' of None \<Rightarrow> True | Some c \<Rightarrow> seeded c)"






text \<open>
  For the chat route: the messages a session has stored; the state of the objects once the
  handler has initialised the session and stored the user's message; the last ten of a
  list of messages, as role and content; the request that carries them.
\<close>

definition stored_messages :: "env \<Rightarrow> string \<Rightarrow> Message list" where
  "stored_messages e sid =
     (case conversations e sid ''conversation'' of None \<Rightarrow> [] | Some c \<Rightarrow> messages c)"

definition after_user_message :: "clock \<Rightarrow> string \<Rightarrow> string \<Rightarrow> string \<Rightarrow> env \<Rightarrow> env" where
  "after_user_message clk uid sid msg e =
     snd (stub_fetch clk sid (ReqMessage FromUser msg)
            (snd (stub_fetch clk sid (ReqInit uid sid) e)))"

definition last_ten :: "Message list \<Rightarrow> (role \<times> string) list" where
  "last_ten ms = map (\<lambda>m. (role m, content m)) (drop (length ms - 10) ms)"

definition chat_request :: "Message list \<Rightarrow> ai_request" where
  "chat_request ms =
     \<lparr>model = llama, ai_messages = last_ten ms, max_tokens = 2048, temperature = Some (7 / 10)\<rparr>"

definition no_sessions :: env where
  "no_sessions = \<lparr>conversations = (\<lambda>sid. Map.empty), ticks = 0\<rparr>"

text \<open>
  Timestamps are in order: those of the stored messages ascend, and none is later than
  the next reading of the clock.
\<close>

definition time_inv :: "clock \<Rightarrow> world \<Rightarrow> bool" where
  "time_inv clk w =
     (case store w ''conversation'' of
        None \<Rightarrow> True
      | Some c \<Rightarrow> sorted (map timestamp (messages c))
                  \<and> list_all (\<lambda>m. timestamp m \<le> clk (tick w)) (messages c))"

text \<open>A sequence of \<open>appendMessage\<close> calls, as requests.\<close>

definition appends :: "(sender \<times> string) list \<Rightarrow> request list" where
  "appends xs = map (\<lambda>(r, t). ReqMessage r t) xs"

section \<open>Properties of the conversation store\<close>

lemma parseInt_0: "parseInt ''0'' = Num 0"
  by (simp add: parseInt_def is_white_def is_digit_def digit_of_def digits_value_def)

lemma parseInt_10: "parseInt ''10'' = Num 10"
  by (simp add: parseInt_def is_white_def is_digit_def digit_of_def digits_value_def)

lemma parseInt_50: "parseInt ''50'' = Num 50"
  by (simp add: parseInt_def is_white_def is_digit_def digit_of_def digits_value_def)

lemma slice_last: "0 < n \<Longrightarrow> slice xs (Num (- n)) = drop (length xs - nat n) xs"
proof -
  assume n: "0 < n"
  have "nat (max (int (length xs) - n) 0) = length xs - nat n"
    using n by (simp add: max_def nat_diff_distrib')
  with n show ?thesis by (simp add: slice_def Let_def)
qed

lemma slice_minus_zero: "slice xs (Num 0) = xs"
  by (simp add: slice_def)

lemma role_of_cases: "role_of r = User \<or> role_of r = Assistant"
  by (cases r) simp_all

subsection \<open>The seed is the only system message\<close>

lemma fetch_store_inv:
  "store_inv (store w) \<Longrightarrow> store_inv (store (snd (fetch clk r w)))"
  by (cases r)
     (auto simp: store_inv_def seeded_def handleInit_def handleAddMessage_def
        handleGetHistory_def handleUpdateContext_def handleClear_def Let_def role_of_cases
        split: option.splits list.splits)

lemma serve_store_inv:
  "store_inv (store w) \<Longrightarrow> store_inv (store (serve clk reqs w))"
  unfolding serve_def
  by (induction reqs arbitrary: w) (simp_all add: fetch_store_inv)

lemma fresh_store_inv: "store_inv (store fresh)"
  by (simp add: store_inv_def fresh_def)

lemma reachable_seeded:
  "store (serve clk reqs fresh) ''conversation'' = Some c \<Longrightarrow> seeded c"
  using serve_store_inv [OF fresh_store_inv, of clk reqs]
  by (simp add: store_inv_def)

text \<open>
  C2: whatever requests a session's object has served since its storage was empty, a
  stored conversation starts with the seeded system message, every later message has the
  role user or assistant, so exactly one message has the role system; and appending a
  message answers with a message of role user or assistant, stored at the end.
\<close>

theorem C2_only_the_seed_is_system:
  "store (serve clk reqs fresh) ''conversation'' = Some c \<Longrightarrow>
     (\<exists>m ms. messages c = m # ms \<and> role m = System \<and> content m = seed_content
              \<and> list_all (\<lambda>x. role x = User \<or> role x = Assistant) ms)
     \<and> length (filter (\<lambda>x. role x = System) (messages c)) = 1
     \<and> (\<exists>m c'. fst (handleAddMessage clk r t (serve clk reqs fresh))
                   = \<lparr>status = 200, body = MessageOk m\<rparr>
                \<and> (role m = User \<or> role m = Assistant)
                \<and> store (snd (handleAddMessage clk r t (serve clk reqs fresh))) ''conversation''
                   = Some c'
                \<and> messages c' = messages c @ [m])"
proof -
  assume st: "store (serve clk reqs fresh) ''conversation'' = Some c"
  then have "seeded c" by (rule reachable_seeded)
  then obtain m ms where ms: "messages c = m # ms" "role m = System" "content m = seed_content"
      "list_all (\<lambda>x. role x = User \<or> role x = Assistant) ms"
    by (auto simp: seeded_def split: list.splits)
  have "filter (\<lambda>x. role x = System) ms = []"
    using ms(4) by (induction ms) auto
  then have one: "length (filter (\<lambda>x. role x = System) (messages c)) = 1"
    using ms by simp
  have add: "\<exists>m c'. fst (handleAddMessage clk r t (serve clk reqs fresh))
                   = \<lparr>status = 200, body = MessageOk m\<rparr>
                \<and> (role m = User \<or> role m = Assistant)
                \<and> store (snd (handleAddMessage clk r t (serve clk reqs fresh))) ''conversation''
                   = Some c'
                \<and> messages c' = messages c @ [m]"
    using st by (simp add: handleAddMessage_def Let_def role_of_cases)
  from ms one add show ?thesis by blast
qed

text \<open>C2 at a session that was initialised and then given one user message.\<close>

theorem C2_witness:
  "store (serve (\<lambda>n. int n) [ReqInit ''u1'' ''s1'', ReqMessage FromUser ''hello''] fresh)
      ''conversation''
     = Some \<lparr>messages = [\<lparr>role = System, content = seed_content, timestamp = 0\<rparr>,
                          \<lparr>role = User, content = ''hello'', timestamp = 3\<rparr>],
             metadata = \<lparr>userId = ''u1'', sessionId = ''s1'', createdAt = 1, lastActivityAt = 4,
                         jobContext = None\<rparr>\<rparr>
   \<and> length (filter (\<lambda>x. role x = System)
         [\<lparr>role = System, content = seed_content, timestamp = 0\<rparr>,
          \<lparr>role = User, content = ''hello'', timestamp = 3\<rparr>]) = 1"
proof -
  have h: "store (serve (\<lambda>n. int n) [ReqInit ''u1'' ''s1'', ReqMessage FromUser ''hello''] fresh)
      ''conversation''
     = Some \<lparr>messages = [\<lparr>role = System, content = seed_content, timestamp = 0\<rparr>,
                          \<lparr>role = User, content = ''hello'', timestamp = 3\<rparr>],
             metadata = \<lparr>userId = ''u1'', sessionId = ''s1'', createdAt = 1, lastActivityAt = 4,
                         jobContext = None\<rparr>\<rparr>"
    by (simp add: serve_def fresh_def handleInit_def handleAddMessage_def Let_def)
  from C2_only_the_seed_is_system [OF h, of FromAssistant "''yo''"] h show ?thesis by simp
qed

subsection \<open>Reading the history\<close>

lemma history_positive_limit:
  "store w ''conversation'' = Some c \<Longrightarrow> p \<noteq> [] \<Longrightarrow> parseInt p = Num n \<Longrightarrow> 0 < n \<Longrightarrow>
     handleGetHistory (Some p) w
       = (\<lparr>status = 200,
           body = History (drop (length (messages c) - nat n) (messages c))
                    (Some (metadata c))\<rparr>, w)"
  by (simp add: handleGetHistory_def slice_last)

lemma history_zero_limit:
  "store w ''conversation'' = Some c \<Longrightarrow> p \<noteq> [] \<Longrightarrow> parseInt p = Num 0 \<Longrightarrow>
     handleGetHistory (Some p) w
       = (\<lparr>status = 200, body = History (messages c) (Some (metadata c))\<rparr>, w)"
  by (simp add: handleGetHistory_def slice_minus_zero)

text \<open>
  What holds of the limit: a positive limit gives the last messages, as many as the
  limit, in the order stored; a run of appends stores its messages in the order of the
  calls; and with a clock that never goes back the timestamps ascend.
\<close>

lemma serve_appends:
  "store w ''conversation'' = Some c \<Longrightarrow>
     \<exists>c'. store (serve clk (appends xs) w) ''conversation'' = Some c'
        \<and> map (\<lambda>m. (role m, content m)) (messages c')
           = map (\<lambda>m. (role m, content m)) (messages c) @ map (\<lambda>(r, t). (role_of r, t)) xs"
proof (induction xs arbitrary: w c)
  case Nil
  then show ?case by (simp add: serve_def appends_def)
next
  case (Cons x xs)
  obtain r t where x: "x = (r, t)" by (cases x)
  define w1 where "w1 = snd (handleAddMessage clk r t w)"
  define c1 where "c1 = c\<lparr>messages := messages c @ [\<lparr>role = role_of r, content = t,
      timestamp = clk (tick w)\<rparr>],
    metadata := (metadata c)\<lparr>lastActivityAt := clk (tick w + 1)\<rparr>\<rparr>"
  have s1: "store w1 ''conversation'' = Some c1"
    using Cons.prems by (simp add: w1_def c1_def handleAddMessage_def Let_def)
  have step: "serve clk (appends (x # xs)) w = serve clk (appends xs) w1"
    by (simp add: serve_def appends_def x w1_def)
  from Cons.IH [OF s1] obtain c' where
    c': "store (serve clk (appends xs) w1) ''conversation'' = Some c'"
      "map (\<lambda>m. (role m, content m)) (messages c')
         = map (\<lambda>m. (role m, content m)) (messages c1) @ map (\<lambda>(r, t). (role_of r, t)) xs"
    by blast
  show ?case
    using c' unfolding step by (simp add: c1_def x)
qed

lemma fetch_time_inv:
  assumes "mono clk" "time_inv clk w"
  shows "time_inv clk (snd (fetch clk r w))"
proof -
  have up: "list_all (\<lambda>m. timestamp m \<le> clk j) ms"
    if "list_all (\<lambda>m. timestamp m \<le> clk (tick w)) ms" "tick w \<le> j"
    for ms :: "Message list" and j
  proof -
    have "clk (tick w) \<le> clk j" using assms(1) that(2) by (rule monoD)
    with that(1) show ?thesis by (induction ms) auto
  qed
  have srt: "sorted (map timestamp ms @ [t])"
    if "sorted (map timestamp ms)" "list_all (\<lambda>m. timestamp m \<le> t) ms"
    for ms :: "Message list" and t
    using that by (auto simp: sorted_append list_all_iff)
  show ?thesis
  proof (cases r)
    case (ReqInit uid sid)
    then show ?thesis
      using assms(2) monoD [OF assms(1), of "tick w" "tick w + 3"]
      by (auto simp: time_inv_def handleInit_def Let_def intro: up split: option.splits)
  next
    case (ReqMessage rl ct)
    then show ?thesis
      using assms(2) monoD [OF assms(1), of "tick w" "tick w + 2"]
      by (auto simp: time_inv_def handleAddMessage_def Let_def srt intro: up
            split: option.splits)
  next
    case (ReqHistory l)
    then show ?thesis
      using assms(2) by (auto simp: time_inv_def handleGetHistory_def Let_def split: option.splits)
  next
    case (ReqContext ctx)
    then show ?thesis
      using assms(2)
      by (auto simp: time_inv_def handleUpdateContext_def Let_def split: option.splits)
  next
    case ReqClear
    then show ?thesis by (simp add: time_inv_def handleClear_def)
  next
    case ReqOther
    then show ?thesis using assms(2) by simp
  qed
qed

lemma serve_time_inv:
  "mono clk \<Longrightarrow> time_inv clk w \<Longrightarrow> time_inv clk (serve clk reqs w)"
  unfolding serve_def
  by (induction reqs arbitrary: w) (simp_all add: fetch_time_inv)

lemma reachable_sorted:
  "mono clk \<Longrightarrow> store (serve clk reqs fresh) ''conversation'' = Some c \<Longrightarrow>
     sorted (map timestamp (messages c))"
  using serve_time_inv [of clk fresh reqs]
  by (simp add: time_inv_def fresh_def)

lemma history_last_messages_in_order:
  assumes "mono clk" "store (serve clk reqs fresh) ''conversation'' = Some c"
    and "p \<noteq> []" "parseInt p = Num n" "0 < n"
  shows "history_messages (body (fst (handleGetHistory (Some p) (serve clk reqs fresh))))
           = drop (length (messages c) - nat n) (messages c)
       \<and> sorted (map timestamp (drop (length (messages c) - nat n) (messages c)))"
  using history_positive_limit [OF assms(2-5)] reachable_sorted [OF assms(1,2)]
  by (simp add: drop_map [symmetric])

text \<open>
  C3: the claim has \<open>getHistory(limit=0)\<close> return no message. On a session initialised and
  given one user message, the request \<open>/history?limit=0\<close> is answered with both stored
  messages: \<open>slice(-0)\<close> is \<open>slice(0)\<close>, the whole array.
\<close>

theorem C3_limit_zero_returns_everything:
  "history_messages (body (fst (handleGetHistory (Some ''0'')
      (serve (\<lambda>n. int n) [ReqInit ''u1'' ''s1'', ReqMessage FromUser ''hello''] fresh))))
   = [\<lparr>role = System, content = seed_content, timestamp = 0\<rparr>,
      \<lparr>role = User, content = ''hello'', timestamp = 3\<rparr>]"
  by (simp add: serve_def fresh_def handleInit_def handleAddMessage_def handleGetHistory_def
        Let_def parseInt_0 slice_def)

subsection \<open>Initialising twice\<close>

text \<open>
  C4: on a session with nothing stored, \<open>initialize\<close> stores a conversation whose only
  message is the seeded system message and answers with it; a second \<open>initialize\<close>, with
  any arguments, answers with that same state and leaves storage and clock as they were.
\<close>

theorem C4_initialize_idempotent:
  "store w ''conversation'' = None \<Longrightarrow>
     (\<exists>c. store (snd (handleInit clk uid sid w)) ''conversation'' = Some c
          \<and> messages c = [\<lparr>role = System, content = seed_content, timestamp = clk (tick w)\<rparr>]
          \<and> fst (handleInit clk uid sid w) = \<lparr>status = 200, body = InitOk c\<rparr>
          \<and> handleInit clk uid' sid' (snd (handleInit clk uid sid w))
              = (\<lparr>status = 200, body = InitOk c\<rparr>, snd (handleInit clk uid sid w)))"
  by (simp add: handleInit_def Let_def)

text \<open>C4 at the empty storage, with the same arguments in both calls.\<close>

theorem C4_witness:
  "store fresh ''conversation'' = None
   \<and> (\<exists>c. store (snd (handleInit (\<lambda>n. int n) ''u1'' ''s1'' fresh)) ''conversation'' = Some c
          \<and> messages c = [\<lparr>role = System, content = seed_content, timestamp = 0\<rparr>]
          \<and> handleInit (\<lambda>n. int n) ''u1'' ''s1''
                (snd (handleInit (\<lambda>n. int n) ''u1'' ''s1'' fresh))
              = (\<lparr>status = 200, body = InitOk c\<rparr>,
                 snd (handleInit (\<lambda>n. int n) ''u1'' ''s1'' fresh)))"
proof -
  have h: "store fresh ''conversation'' = None" by (simp add: fresh_def)
  from C4_initialize_idempotent [OF h, of "\<lambda>n. int n" "''u1''" "''s1''" "''u1''" "''s1''"] h
  show ?thesis by (auto simp: fresh_def)
qed

subsection \<open>Clearing\<close>

text \<open>
  C8: \<open>clear\<close> answers success and leaves the storage empty, whatever it held. After it,
  reading the history gives the empty list, appending a message and updating the context
  are refused as on a session never initialised, and \<open>initialize\<close> stores one seeded
  system message with \<open>createdAt\<close> read from the clock during that call.
\<close>

theorem C8_clear_forgets_the_session:
  "fst (handleClear w) = \<lparr>status = 200, body = ClearOk\<rparr>
   \<and> store (snd (handleClear w)) = Map.empty
   \<and> fst (handleGetHistory l (snd (handleClear w))) = \<lparr>status = 200, body = History [] None\<rparr>
   \<and> fst (handleAddMessage clk r t (snd (handleClear w)))
       = \<lparr>status = 400, body = ErrorBody ''Conversation not initialized''\<rparr>
   \<and> fst (handleUpdateContext ctx (snd (handleClear w)))
       = \<lparr>status = 400, body = ErrorBody ''Conversation not initialized''\<rparr>
   \<and> (\<exists>c. store (snd (handleInit clk uid sid (snd (handleClear w)))) ''conversation'' = Some c
          \<and> messages c = [\<lparr>role = System, content = seed_content, timestamp = clk (tick w)\<rparr>]
          \<and> createdAt (metadata c) = clk (tick w + 1)
          \<and> jobContext (metadata c) = None)"
  by (simp add: handleClear_def handleGetHistory_def handleAddMessage_def
        handleUpdateContext_def handleInit_def Let_def)

text \<open>C8 at a session that held a conversation of two messages, cleared at clock reading 5.\<close>

theorem C8_witness:
  "history_messages (body (fst (handleGetHistory None
      (snd (handleClear
         (serve (\<lambda>n. int n) [ReqInit ''u1'' ''s1'', ReqMessage FromUser ''hello''] fresh))))))
     = []
   \<and> (\<exists>c. store (snd (handleInit (\<lambda>n. int n) ''u1'' ''s1''
         (snd (handleClear
            (serve (\<lambda>n. int n) [ReqInit ''u1'' ''s1'', ReqMessage FromUser ''hello''] fresh)))))
         ''conversation'' = Some c
        \<and> messages c = [\<lparr>role = System, content = seed_content, timestamp = 5\<rparr>]
        \<and> createdAt (metadata c) = 6)"
proof -
  define w where
    "w = serve (\<lambda>n. int n) [ReqInit ''u1'' ''s1'', ReqMessage FromUser ''hello''] fresh"
  have t: "tick w = 5"
    by (simp add: w_def serve_def fresh_def handleInit_def handleAddMessage_def Let_def)
  have "history_messages (body (fst (handleGetHistory None (snd (handleClear w))))) = []"
    using C8_clear_forgets_the_session
      [of w None "\<lambda>n. int n" FromUser "''x''" Map.empty "''u1''" "''s1''"]
    by simp
  moreover have "\<exists>c. store (snd (handleInit (\<lambda>n. int n) ''u1'' ''s1'' (snd (handleClear w))))
         ''conversation'' = Some c
        \<and> messages c = [\<lparr>role = System, content = seed_content, timestamp = 5\<rparr>]
        \<and> createdAt (metadata c) = 6"
    using C8_clear_forgets_the_session
      [of w None "\<lambda>n. int n" FromUser "''x''" Map.empty "''u1''" "''s1''"] t
    by auto
  ultimately show ?thesis unfolding w_def by blast
qed

subsection \<open>Reading the history of a session never initialised\<close>

text \<open>
  C9, amended: on a session with nothing stored, \<open>getHistory\<close> answers, for every value of
  the limit parameter (present or not), with status 200 and the body \<open>{messages: []}\<close>, an
  empty message list and no metadata, and changes nothing.
\<close>

theorem C9_uninitialized_history_is_empty:
  "store w ''conversation'' = None \<Longrightarrow>
     handleGetHistory l w = (\<lparr>status = 200, body = History [] None\<rparr>, w)"
  by (simp add: handleGetHistory_def Let_def)

text \<open>C9, amended, at the empty storage and the limit parameter \<open>abc\<close>.\<close>

theorem C9_witness:
  "store fresh ''conversation'' = None
   \<and> handleGetHistory (Some ''abc'') fresh = (\<lparr>status = 200, body = History [] None\<rparr>, fresh)"
proof -
  have h: "store fresh ''conversation'' = None" by (simp add: fresh_def)
  from C9_uninitialized_history_is_empty [OF h, of "Some ''abc''"] h show ?thesis by simp
qed

text \<open>
  C9 as stated has the answer carry the metadata too. At the empty storage and no limit
  parameter the answer has no metadata.
\<close>

theorem C9_counterexample:
  "store fresh ''conversation'' = None
   \<and> history_messages (body (fst (handleGetHistory None fresh))) = []
   \<and> history_metadata (body (fst (handleGetHistory None fresh))) = None"
  by (simp add: handleGetHistory_def fresh_def Let_def)

subsection \<open>Updating the job context\<close>

lemma spread_lookup:
  "spread a b k = (case b k of Some v \<Rightarrow> Some v
                   | None \<Rightarrow> (case a of None \<Rightarrow> None | Some m \<Rightarrow> m k))"
  by (simp add: spread_def map_add_def split: option.splits)

text \<open>
  In the object, \<open>updateContext\<close> on an initialised session merges field by field, stores
  the merged context and answers with it.
\<close>

lemma handleUpdateContext_merges:
  "store w ''conversation'' = Some c \<Longrightarrow>
     handleUpdateContext ctx w =
       (\<lparr>status = 200, body = ContextOk (spread (jobContext (metadata c)) ctx)\<rparr>,
        w\<lparr>store := (store w)(''conversation'' \<mapsto>
             c\<lparr>metadata :=
                 (metadata c)\<lparr>jobContext := Some (spread (jobContext (metadata c)) ctx)\<rparr>\<rparr>)\<rparr>)"
  by (simp add: handleUpdateContext_def Let_def)

lemma spread_job_title_then_company:
  "spread (Some [''jobTitle'' \<mapsto> JStr ''A'']) [''company'' \<mapsto> JStr ''B'']
     = [''jobTitle'' \<mapsto> JStr ''A'', ''company'' \<mapsto> JStr ''B'']"
  by (simp add: spread_def)

lemma spread_overwrites_job_title:
  "spread (Some [''jobTitle'' \<mapsto> JStr ''A'', ''company'' \<mapsto> JStr ''B''])
       [''jobTitle'' \<mapsto> JStr ''C'']
     = [''jobTitle'' \<mapsto> JStr ''C'', ''company'' \<mapsto> JStr ''B'']"
  by (rule ext) (simp add: spread_def)

text \<open>
  The route sends the request body itself as the context: a body that is the partial
  context is merged as such.
\<close>

lemma post_context_sends_whole_body:
  "conversations e sid ''conversation'' = Some c \<Longrightarrow>
     http_body (fst (post_context clk sid request_body e))
       = FromObject (ContextOk (spread (jobContext (metadata c)) request_body))"
  by (simp add: post_context_def stub_fetch_def handleUpdateContext_def Let_def)

text \<open>
  C1: the claim has the route take the body \<open>{jobContext: {...partial}}\<close> and merge the
  partial fields. On a session whose context is \<open>{jobTitle: "A"}\<close>, the request body
  \<open>{jobContext: {company: "B"}}\<close> is answered with the context
  \<open>{jobTitle: "A", jobContext: {company: "B"}}\<close>: the body is wrapped a second time, and
  the merged context gets a property \<open>jobContext\<close> and no property \<open>company\<close>.
\<close>

theorem C1_documented_body_is_nested:
  "http_body (fst (post_context (\<lambda>n. int n) ''s1''
       [''jobContext'' \<mapsto> JObj [''company'' \<mapsto> JStr ''B'']]
       (snd (post_context (\<lambda>n. int n) ''s1'' [''jobTitle'' \<mapsto> JStr ''A'']
          (snd (stub_fetch (\<lambda>n. int n) ''s1'' (ReqInit ''u1'' ''s1'') no_sessions))))))
   = FromObject (ContextOk [''jobTitle'' \<mapsto> JStr ''A'',
                            ''jobContext'' \<mapsto> JObj [''company'' \<mapsto> JStr ''B'']])"
  by (simp add: post_context_def stub_fetch_def no_sessions_def handleInit_def
        handleUpdateContext_def spread_def Let_def)

section \<open>Properties of the workflow routes\<close>

subsection \<open>Starting a run\<close>

text \<open>
  C6, amended: the route answers 400 exactly when \<open>jobDescription\<close>, \<open>resumeText\<close> or
  \<open>jobTitle\<close> is absent or the empty string, whatever \<open>company\<close> and \<open>userId\<close> are; it
  then leaves the orchestrator untouched. Otherwise, when \<open>create\<close> gives an identifier,
  the answer is \<open>{workflowId, message, status: "running"}\<close> with that identifier.
\<close>

theorem C6_validation:
  "(http_status (fst (post_workflow create p orch)) = 400
      \<longleftrightarrow> (jobDescription p = None \<or> jobDescription p = Some [] \<or> resumeText p = None
           \<or> resumeText p = Some [] \<or> jobTitle p = None \<or> jobTitle p = Some []))
   \<and> (http_status (fst (post_workflow create p orch)) = 400 \<longrightarrow>
        post_workflow create p orch
          = (\<lparr>http_status = 400, http_body = HttpError ''Missing required workflow fields''\<rparr>,
             orch))
   \<and> (http_status (fst (post_workflow create p orch)) \<noteq> 400
        \<and> create p orch = (Returned run_id, orch') \<longrightarrow>
        post_workflow create p orch
          = (\<lparr>http_status = 200,
              http_body = WorkflowStarted run_id ''Workflow started successfully'' ''running''\<rparr>,
             orch'))"
  by (cases "jobDescription p"; cases "resumeText p"; cases "jobTitle p";
      cases "create p orch"; cases "fst (create p orch)")
     (auto simp: post_workflow_def)

text \<open>
  C6, amended, at a request with the three fields and no \<open>company\<close> and no \<open>userId\<close>,
  and at a request whose \<open>jobTitle\<close> is absent; the orchestrator counts the runs created.
\<close>

theorem C6_witness:
  "post_workflow (\<lambda>p n. (Returned ''run-1'', Suc n))
      \<lparr>jobDescription = Some ''d'', resumeText = Some ''r'', jobTitle = Some ''t'',
       company = None, applicant = None\<rparr> (0::nat)
     = (\<lparr>http_status = 200,
         http_body = WorkflowStarted ''run-1'' ''Workflow started successfully'' ''running''\<rparr>,
        Suc 0)
   \<and> post_workflow (\<lambda>p n. (Returned ''run-1'', Suc n))
      \<lparr>jobDescription = Some ''d'', resumeText = Some ''r'', jobTitle = None,
       company = Some ''c'', applicant = Some ''u''\<rparr> (0::nat)
     = (\<lparr>http_status = 400, http_body = HttpError ''Missing required workflow fields''\<rparr>, 0)"
  using
    C6_validation [of "\<lambda>p n. (Returned ''run-1'', Suc n)"
      "\<lparr>jobDescription = Some ''d'', resumeText = Some ''r'', jobTitle = Some ''t'',
        company = None, applicant = None\<rparr>" "0::nat" "''run-1''" "Suc 0"]
    C6_validation [of "\<lambda>p n. (Returned ''run-1'', Suc n)"
      "\<lparr>jobDescription = Some ''d'', resumeText = Some ''r'', jobTitle = None,
        company = Some ''c'', applicant = Some ''u''\<rparr>" "0::nat" "''run-1''" "Suc 0"]
  by simp

text \<open>
  C6 as stated has the 400 only when one of the three fields is missing. A request that
  has all three, with \<open>jobDescription\<close> the empty string, is answered 400.
\<close>

theorem C6_counterexample:
  "jobDescription \<lparr>jobDescription = Some [], resumeText = Some ''r'', jobTitle = Some ''t'',
                    company = Some ''c'', applicant = Some ''u''\<rparr> = Some []
   \<and> resumeText \<lparr>jobDescription = Some [], resumeText = Some ''r'', jobTitle = Some ''t'',
                    company = Some ''c'', applicant = Some ''u''\<rparr> = Some ''r''
   \<and> jobTitle \<lparr>jobDescription = Some [], resumeText = Some ''r'', jobTitle = Some ''t'',
                    company = Some ''c'', applicant = Some ''u''\<rparr> = Some ''t''
   \<and> http_status (fst (post_workflow (\<lambda>p n. (Returned ''run-1'', Suc n))
        \<lparr>jobDescription = Some [], resumeText = Some ''r'', jobTitle = Some ''t'',
         company = Some ''c'', applicant = Some ''u''\<rparr> (0::nat))) = 400"
  by (simp add: post_workflow_def)

subsection \<open>Polling a run\<close>

lemma status_failure_no_record:
  "no_record err \<Longrightarrow> status_failure i err
     = \<lparr>http_status = 200, http_body = WorkflowStatus i (JStr ''not_found'') JNull\<rparr>"
  by (simp add: status_failure_def no_record_def)

text \<open>The other copy of the route answers a thrown error, of any kind, with a 500.\<close>

lemma get_workflow_variant_error:
  "flows i = Threw err \<Longrightarrow>
     get_workflow_variant flows i
       = \<lparr>http_status = 500, http_body = HttpError ''Failed to get workflow status''\<rparr>"
  by (simp add: get_workflow_variant_def)

text \<open>
  C5: when the orchestrator answers as the spec has it (a status object whose status is a
  run state, or the error of an unknown run), the route answers 200 with
  \<open>{workflowId, status, output}\<close>, the status one of queued, running, complete, errored,
  terminated, not_found; the output is null unless the status is complete; and an unknown
  run gives the status not_found with a null output.
\<close>

theorem C5_polling:
  "orchestrator_answers flows i \<Longrightarrow>
     (\<exists>st out. get_workflow flows i
                  = \<lparr>http_status = 200, http_body = WorkflowStatus i st out\<rparr>
        \<and> st \<in> set poll_statuses
        \<and> (out \<noteq> JNull \<longrightarrow> st = JStr ''complete'')
        \<and> (\<not> has_record flows i \<longrightarrow> st = JStr ''not_found'' \<and> out = JNull))"
  unfolding orchestrator_answers_def get_workflow_def has_record_def reports_run_state_def
    poll_statuses_def run_states_def
  by (auto simp: status_failure_no_record Let_def split: outcome.splits option.splits)

text \<open>
  C5 at an orchestrator that knows no run and throws \<open>instance.not_found\<close>, and at one
  that reports every run as running, with no output.
\<close>

theorem C5_witness:
  "get_workflow
        (\<lambda>i. Threw (JsError (Some ''instance.not_found'') ''Error: instance.not_found'')) ''run-9''
      = \<lparr>http_status = 200, http_body = WorkflowStatus ''run-9'' (JStr ''not_found'') JNull\<rparr>
   \<and> (\<exists>st. get_workflow
        (\<lambda>i. Returned
           \<lparr>inst_status = Returned (Some \<lparr>si_status = JStr ''running'', si_output = JNull,
                                           si_result = JNull\<rparr>),
            inst_output = Threw (JsError (Some ''instance.output is not a function'')
                                   ''TypeError: instance.output is not a function'')\<rparr>) ''run-1''
      = \<lparr>http_status = 200, http_body = WorkflowStatus ''run-1'' st JNull\<rparr>
      \<and> st \<in> set poll_statuses)"
proof -
  define gone :: workflows where
    "gone = (\<lambda>i. Threw (JsError (Some ''instance.not_found'') ''Error: instance.not_found''))"
  define busy :: workflows where
    "busy = (\<lambda>i. Returned
           \<lparr>inst_status = Returned (Some \<lparr>si_status = JStr ''running'', si_output = JNull,
                                           si_result = JNull\<rparr>),
            inst_output = Threw (JsError (Some ''instance.output is not a function'')
                                   ''TypeError: instance.output is not a function'')\<rparr>)"
  have g: "orchestrator_answers gone ''run-9''"
    by (simp add: gone_def orchestrator_answers_def no_record_def js_includes_def sublist_code)
  have n: "\<not> has_record gone ''run-9''"
    by (simp add: gone_def has_record_def)
  have b: "orchestrator_answers busy ''run-1''"
    by (simp add: busy_def orchestrator_answers_def reports_run_state_def run_states_def)
  have o: "get_workflow busy ''run-1''
      = \<lparr>http_status = 200, http_body = WorkflowStatus ''run-1'' (JStr ''running'') JNull\<rparr>"
    by (simp add: busy_def get_workflow_def)
  have "get_workflow gone ''run-9''
      = \<lparr>http_status = 200, http_body = WorkflowStatus ''run-9'' (JStr ''not_found'') JNull\<rparr>"
    using C5_polling [OF g] n by auto
  moreover have "\<exists>st. get_workflow busy ''run-1''
      = \<lparr>http_status = 200, http_body = WorkflowStatus ''run-1'' st JNull\<rparr>
      \<and> st \<in> set poll_statuses"
    using C5_polling [OF b] o by auto
  ultimately show ?thesis unfolding gone_def busy_def by blast
qed

section \<open>Properties of the generation pipeline\<close>





lemma replicate_snoc_front: "served @ [req] @ replicate m req = served @ replicate (Suc m) req"
  by simp













section \<open>Properties of the chat route\<close>

lemma history_limit_10:
  "store w ''conversation'' = Some c \<Longrightarrow>
     handleGetHistory (Some ''10'') w
       = (\<lparr>status = 200,
           body = History (drop (length (messages c) - 10) (messages c)) (Some (metadata c))\<rparr>, w)"
  using history_positive_limit [of w c "''10''" 10]
  by (simp add: parseInt_10)

lemma after_user_message_stored:
  "\<exists>c. conversations (after_user_message clk uid sid msg e) sid ''conversation'' = Some c
       \<and> messages c =
          (case conversations e sid ''conversation'' of
             None \<Rightarrow> [\<lparr>role = System, content = seed_content, timestamp = clk (ticks e)\<rparr>,
                       \<lparr>role = User, content = msg, timestamp = clk (ticks e + 3)\<rparr>]
           | Some c0 \<Rightarrow> messages c0 @ [\<lparr>role = User, content = msg, timestamp = clk (ticks e)\<rparr>])"
  by (cases "conversations e sid ''conversation''")
     (simp_all add: after_user_message_def stub_fetch_def handleInit_def handleAddMessage_def
        Let_def)

lemma post_chat_forwards:
  assumes "chat_message req = Some msg" "msg \<noteq> []"
    and "chat_sessionId req = Some sid" "sid \<noteq> []"
    and "chat_userId req = Some uid" "uid \<noteq> []"
  shows "snd (snd (post_chat clk (recording answer) req e served))
       = served @ [chat_request (stored_messages (after_user_message clk uid sid msg e) sid)]"
proof -
  obtain c where
    c: "conversations (after_user_message clk uid sid msg e) sid ''conversation'' = Some c"
    using after_user_message_stored by blast
  have h: "stub_fetch clk sid (ReqHistory (Some ''10'')) (after_user_message clk uid sid msg e)
      = (\<lparr>status = 200,
           body = History (drop (length (messages c) - 10) (messages c)) (Some (metadata c))\<rparr>,
         after_user_message clk uid sid msg e)"
    using c by (simp add: stub_fetch_def history_limit_10)
  show ?thesis
    using assms c h
    by (simp add: post_chat_def Let_def recording_def stored_messages_def chat_request_def
          last_ten_def after_user_message_def split: outcome.splits prod.splits)
qed

lemma drop_excludes_head:
  "0 < n \<Longrightarrow> set (drop n (x # xs)) \<subseteq> set xs"
  by (cases n) (auto dest: in_set_dropD)

lemma last_ten_without_seed:
  assumes "seeded c"
    and "10 < length (messages c @ [\<lparr>role = User, content = msg, timestamp = t\<rparr>])"
  shows "System \<notin> fst ` set (last_ten (messages c @ [\<lparr>role = User, content = msg, timestamp = t\<rparr>]))"
proof -
  obtain m ms where ms: "messages c = m # ms"
      "list_all (\<lambda>x. role x = User \<or> role x = Assistant) ms"
    using assms(1) by (auto simp: seeded_def split: list.splits)
  define u where "u = \<lparr>role = User, content = msg, timestamp = t\<rparr>"
  define all where "all = m # (ms @ [u])"
  have len: "0 < length all - 10"
    using assms(2) ms(1) by (simp add: all_def)
  have sub: "set (drop (length all - 10) all) \<subseteq> set (ms @ [u])"
    unfolding all_def using len [unfolded all_def] by (rule drop_excludes_head)
  have "\<forall>x \<in> set (ms @ [u]). role x \<noteq> System"
    using ms(2) by (auto simp: list_all_iff u_def)
  with sub have "\<forall>x \<in> set (drop (length all - 10) all). role x \<noteq> System"
    by blast
  moreover have "messages c @ [\<lparr>role = User, content = msg, timestamp = t\<rparr>] = all"
    by (simp add: all_def u_def ms(1))
  ultimately show ?thesis
    by (auto simp: last_ten_def)
qed

lemma stored_without_seed:
  assumes "store_inv (conversations e sid)"
    and "10 < length (stored_messages (after_user_message clk uid sid msg e) sid)"
  shows "System \<notin> fst ` set (last_ten (stored_messages (after_user_message clk uid sid msg e) sid))"
proof (cases "conversations e sid ''conversation''")
  case None
  then have "length (stored_messages (after_user_message clk uid sid msg e) sid) = 2"
    using after_user_message_stored [of clk uid sid msg e]
    by (auto simp: stored_messages_def)
  with assms(2) show ?thesis by simp
next
  case (Some c0)
  then have s: "seeded c0" using assms(1) by (simp add: store_inv_def)
  have m: "stored_messages (after_user_message clk uid sid msg e) sid
      = messages c0 @ [\<lparr>role = User, content = msg, timestamp = clk (ticks e)\<rparr>]"
    using after_user_message_stored [of clk uid sid msg e] Some
    by (auto simp: stored_messages_def)
  show ?thesis
    using last_ten_without_seed [OF s, of msg "clk (ticks e)"] assms(2)
    unfolding m by simp
qed

text \<open>The invariant of the store holds for every session the routes have touched.\<close>

lemma stub_fetch_store_inv:
  "store_inv (conversations e s) \<Longrightarrow>
     store_inv (conversations (snd (stub_fetch clk sid req e)) s)"
  using fetch_store_inv [of "\<lparr>store = conversations e sid, tick = ticks e\<rparr>" clk req]
  by (auto simp: stub_fetch_def split: prod.splits)

lemma stub_fetch_store_inv_pair:
  "stub_fetch clk sid req e = (r, e') \<Longrightarrow> store_inv (conversations e s) \<Longrightarrow>
     store_inv (conversations e' s)"
  using stub_fetch_store_inv [of e s clk sid req] by simp

lemma post_context_store_inv:
  "store_inv (conversations e s) \<Longrightarrow>
     store_inv (conversations (snd (post_context clk sid b e)) s)"
  by (auto simp: post_context_def split: prod.splits elim: stub_fetch_store_inv_pair)

lemma post_chat_store_inv:
  assumes "store_inv (conversations e s)"
  shows "store_inv (conversations (fst (snd (post_chat clk ai req e x))) s)"
proof -
  define sid where "sid = the (chat_sessionId req)"
  define e2 where "e2 = snd (stub_fetch clk sid (ReqMessage FromUser (the (chat_message req)))
     (snd (stub_fetch clk sid (ReqInit (the (chat_userId req)) sid) e)))"
  define e3 where "e3 = snd (stub_fetch clk sid (ReqHistory (Some ''10'')) e2)"
  have i3: "store_inv (conversations e3 s)"
    using assms by (simp add: e3_def e2_def stub_fetch_store_inv)
  have i4: "store_inv (conversations (snd (stub_fetch clk sid (ReqMessage FromAssistant a) e3)) s)"
    for a
    using i3 by (rule stub_fetch_store_inv)
  show ?thesis
    using assms i3 i4
    by (auto simp: post_chat_def Let_def sid_def e2_def e3_def
          split: prod.splits outcome.splits)
qed

text \<open>
  C10: a chat request with its three fields makes one request to the model, whose
  messages are, as role and content, the last ten messages the session has stored once
  the user's message has been appended (all of them when there are at most ten). When
  more than ten are stored, the model gets exactly ten and none of them is the seeded
  system message: none has the role system.
\<close>

theorem C10_chat_forwards_last_ten:
  assumes "chat_message req = Some msg" "msg \<noteq> []"
    and "chat_sessionId req = Some sid" "sid \<noteq> []"
    and "chat_userId req = Some uid" "uid \<noteq> []"
    and "store_inv (conversations e sid)"
    and "stored = stored_messages (after_user_message clk uid sid msg e) sid"
  shows "snd (snd (post_chat clk (recording answer) req e served))
           = served @ [\<lparr>model = llama, ai_messages = last_ten stored, max_tokens = 2048,
                         temperature = Some (7 / 10)\<rparr>]
       \<and> last_ten stored = map (\<lambda>m. (role m, content m)) (drop (length stored - 10) stored)
       \<and> length (last_ten stored) = min 10 (length stored)
       \<and> (10 < length stored \<longrightarrow> System \<notin> fst ` set (last_ten stored))
       \<and> stored =
           (case conversations e sid ''conversation'' of
              None \<Rightarrow> [\<lparr>role = System, content = seed_content, timestamp = clk (ticks e)\<rparr>,
                        \<lparr>role = User, content = msg, timestamp = clk (ticks e + 3)\<rparr>]
            | Some c0 \<Rightarrow>
                messages c0 @ [\<lparr>role = User, content = msg, timestamp = clk (ticks e)\<rparr>])"
proof -
  have "stored =
           (case conversations e sid ''conversation'' of
              None \<Rightarrow> [\<lparr>role = System, content = seed_content, timestamp = clk (ticks e)\<rparr>,
                        \<lparr>role = User, content = msg, timestamp = clk (ticks e + 3)\<rparr>]
            | Some c0 \<Rightarrow>
                messages c0 @ [\<lparr>role = User, content = msg, timestamp = clk (ticks e)\<rparr>])"
    using after_user_message_stored [of clk uid sid msg e] assms(8)
    by (auto simp: stored_messages_def)
  then show ?thesis
    using post_chat_forwards [OF assms(1-6), of clk answer e served]
      stored_without_seed [OF assms(7), of clk uid msg] assms(8)
    by (simp add: chat_request_def last_ten_def)
qed

text \<open>
  C10 at a session that has stored the seed and ten user messages: the eleventh user
  message makes twelve, and the model is given the last ten, the seed not among them.
\<close>

theorem C10_witness:
  "snd (snd (post_chat (\<lambda>n. int n)
        (recording (\<lambda>served req. Returned (AiString ''fine'')))
        \<lparr>chat_message = Some ''hi'', chat_sessionId = Some ''s1'', chat_userId = Some ''u1''\<rparr>
        \<lparr>conversations = (\<lambda>sid. Map.empty)(''s1'' := [''conversation'' \<mapsto>
             \<lparr>messages = \<lparr>role = System, content = seed_content, timestamp = 0\<rparr>
                          # replicate 10 \<lparr>role = User, content = ''q'', timestamp = 5\<rparr>,
              metadata = \<lparr>userId = ''u1'', sessionId = ''s1'', createdAt = 1,
                          lastActivityAt = 6, jobContext = None\<rparr>\<rparr>]),
         ticks = 50\<rparr>
        []))
     = [\<lparr>model = llama, ai_messages = replicate 9 (User, ''q'') @ [(User, ''hi'')],
         max_tokens = 2048, temperature = Some (7 / 10)\<rparr>]
   \<and> System \<notin> fst ` set (replicate 9 (User, ''q'') @ [(User, ''hi'')])"
proof -
  define c where "c = \<lparr>messages = \<lparr>role = System, content = seed_content, timestamp = 0\<rparr>
                          # replicate 10 \<lparr>role = User, content = ''q'', timestamp = 5\<rparr>,
              metadata = \<lparr>userId = ''u1'', sessionId = ''s1'', createdAt = 1,
                          lastActivityAt = 6, jobContext = None\<rparr>\<rparr>"
  define e where "e = \<lparr>conversations = (\<lambda>sid. Map.empty)(''s1'' := [''conversation'' \<mapsto> c]),
                        ticks = 50\<rparr>"
  define req where "req = \<lparr>chat_message = Some ''hi'', chat_sessionId = Some ''s1'',
                            chat_userId = Some ''u1''\<rparr>"
  define stored where "stored = messages c @ [\<lparr>role = User, content = ''hi'', timestamp = 50\<rparr>]"
  have inv: "store_inv (conversations e ''s1'')"
    by (simp add: e_def c_def store_inv_def seeded_def list_all_iff)
  have st: "stored = stored_messages (after_user_message (\<lambda>n. int n) ''u1'' ''s1'' ''hi'' e) ''s1''"
    by (simp add: stored_def stored_messages_def after_user_message_def stub_fetch_def
          handleInit_def handleAddMessage_def Let_def e_def)
  have ten: "last_ten stored = replicate 9 (User, ''q'') @ [(User, ''hi'')]"
    by (simp add: last_ten_def stored_def c_def)
  have r1: "chat_message req = Some ''hi''" and r2: "chat_sessionId req = Some ''s1''"
    and r3: "chat_userId req = Some ''u1''"
    by (simp_all add: req_def)
  have n1: "''hi'' \<noteq> []" and n2: "''s1'' \<noteq> []" and n3: "''u1'' \<noteq> []"
    by simp_all
  note T = C10_chat_forwards_last_ten [OF r1 n1 r2 n2 r3 n3 inv st,
      of "\<lambda>served req. Returned (AiString ''fine'')" "[]"]
  from T have "snd (snd (post_chat (\<lambda>n. int n)
        (recording (\<lambda>served req. Returned (AiString ''fine''))) req e []))
     = [\<lparr>model = llama, ai_messages = last_ten stored, max_tokens = 2048,
         temperature = Some (7 / 10)\<rparr>]
     \<and> (10 < length stored \<longrightarrow> System \<notin> fst ` set (last_ten stored))"
    unfolding append_Nil by blast
  moreover have "10 < length stored"
    by (simp add: stored_def c_def)
  ultimately show ?thesis
    unfolding ten req_def e_def c_def by simp
qed

end
